theory Spec2Isabelle
  imports Complex_Main "HOL-Library.Word"
begin

section \<open>The Inivation DVS camera process (\<^verbatim>\<open>dvs/inivation.py\<close>)\<close>

text \<open>
  A shallow embedding of \<^verbatim>\<open>InivationCamera.__init__\<close>,
  \<^verbatim>\<open>PyInivationCameraModel.__init__\<close>, \<^verbatim>\<open>run_spk\<close> and \<^verbatim>\<open>_pause\<close>.
  Python integers are \<open>int\<close>, exceptions are values of \<open>exn\<close>, numpy arrays are a shape
  with row-major data, and every call to a collaborator (camera, Compose pipeline,
  histogram binner, output port) is written to a list of effects so that what was called,
  with which arguments and in which order, can be stated.
\<close>

subsection \<open>Exceptions, events, arrays\<close>

datatype exn =
    ValueError string
  | NotImplementedError string
  | Exception string
  | IndexError string
  | OtherError string

text \<open>A record of the camera's own batch format (\<^verbatim>\<open>events.numpy()\<close>).\<close>

record dv_event =
  dv_timestamp :: int
  dv_x :: int
  dv_y :: int
  dv_polarity :: int

text \<open>
  One element of the structured array with dtype
  \<^verbatim>\<open>[("y", int), ("x", int), ("p", int), ("t", int)]\<close>.
\<close>

record event =
  ev_y :: int
  ev_x :: int
  ev_p :: int
  ev_t :: int

type_synonym events = "event list"

text \<open>\<^verbatim>\<open>EventVolume(height, width, polarities)\<close>, the shape descriptor of the pipeline.\<close>

record EventVolume =
  ev_height :: int
  ev_width :: int
  ev_polarities :: int

text \<open>A numpy array of dtype \<^verbatim>\<open>uint8\<close>: its shape and its data in row-major order.\<close>

record u8array =
  u8_shape :: "nat list"
  u8_data :: "8 word list"

text \<open>A numpy array of dtype \<^verbatim>\<open>float64\<close> (only ever built by \<^verbatim>\<open>np.zeros\<close> here).\<close>

record f64array =
  f64_shape :: "nat list"
  f64_data :: "real list"

datatype ndarray = UInt8 u8array | Float64 f64array

datatype dtype = uint8 | float64

fun nd_shape :: "ndarray \<Rightarrow> nat list" where
  "nd_shape (UInt8 a) = u8_shape a"
| "nd_shape (Float64 a) = f64_shape a"

fun nd_dtype :: "ndarray \<Rightarrow> dtype" where
  "nd_dtype (UInt8 a) = uint8"
| "nd_dtype (Float64 a) = float64"

fun nd_all_zero :: "ndarray \<Rightarrow> bool" where
  "nd_all_zero (UInt8 a) = list_all (\<lambda>c. c = 0) (u8_data a)"
| "nd_all_zero (Float64 a) = list_all (\<lambda>c. c = 0) (f64_data a)"

fun nd_size :: "ndarray \<Rightarrow> nat" where
  "nd_size (UInt8 a) = length (u8_data a)"
| "nd_size (Float64 a) = length (f64_data a)"

text \<open>
  \<^verbatim>\<open>np.zeros(shape, dtype=np.uint8)\<close> and \<^verbatim>\<open>np.zeros(shape)\<close> (whose dtype is
  float64): a negative dimension raises ValueError.
\<close>

definition np_zeros_u8 :: "int list \<Rightarrow> exn + u8array" where
  "np_zeros_u8 shp =
     (if list_ex (\<lambda>d. d < 0) shp then Inl (ValueError ''negative dimensions are not allowed'')
      else Inr \<lparr>u8_shape = map nat shp, u8_data = replicate (prod_list (map nat shp)) 0\<rparr>)"

definition np_zeros :: "int list \<Rightarrow> exn + f64array" where
  "np_zeros shp =
     (if list_ex (\<lambda>d. d < 0) shp then Inl (ValueError ''negative dimensions are not allowed'')
      else Inr \<lparr>f64_shape = map nat shp, f64_data = replicate (prod_list (map nat shp)) 0\<rparr>)"

subsection \<open>The Compose pipeline as the camera code sees it\<close>

text \<open>
  The process only ever calls a pipeline (\<^verbatim>\<open>self.transformations(events)\<close>) and asks it
  for its output shape. A call may raise; otherwise it leaves the argument array in some
  state (its in-place effect, first component) and returns a batch (second component),
  which may or may not be the argument.
\<close>

record compose =
  call :: "events \<Rightarrow> exn + (events \<times> events)"
  determine_output_shape :: "EventVolume \<Rightarrow> exn + EventVolume"

text \<open>
  Modelled from the spec: \<^verbatim>\<open>lava/lib/peripherals/dvs/transform.py\<close> (the classes
  \<^verbatim>\<open>Compose\<close> and the transformations) is not among the sources. A Transformation has the
  two capabilities \<^verbatim>\<open>apply\<close> and \<^verbatim>\<open>infer_output_shape\<close>; Compose is an ordered sequence
  of them, its shape function is the left fold of the transforms' shape functions over the
  input shape and its apply is the left fold of their apply functions over the input batch.
  What a transformation returns is either the array it was given or a new array; a new
  array is taken to share no memory with the argument.
\<close>

datatype returned = SameArray | NewArray events

record transformation =
  apply_events :: "events \<Rightarrow> exn + (events \<times> returned)"
  infer_output_shape :: "EventVolume \<Rightarrow> exn + EventVolume"

fun fold_shape :: "transformation list \<Rightarrow> EventVolume \<Rightarrow> exn + EventVolume" where
  "fold_shape [] v = Inr v"
| "fold_shape (tr # trs) v =
     (case infer_output_shape tr v of Inl e \<Rightarrow> Inl e | Inr v' \<Rightarrow> fold_shape trs v')"

fun fold_apply :: "transformation list \<Rightarrow> events \<Rightarrow> returned \<Rightarrow> exn + (events \<times> returned)" where
  "fold_apply [] arg cur = Inr (arg, cur)"
| "fold_apply (tr # trs) arg SameArray =
     (case apply_events tr arg of Inl e \<Rightarrow> Inl e | Inr (arg', r) \<Rightarrow> fold_apply trs arg' r)"
| "fold_apply (tr # trs) arg (NewArray es) =
     (case apply_events tr es of Inl e \<Rightarrow> Inl e
      | Inr (es', SameArray) \<Rightarrow> fold_apply trs arg (NewArray es')
      | Inr (es', NewArray es'') \<Rightarrow> fold_apply trs arg (NewArray es''))"

definition Compose :: "transformation list \<Rightarrow> compose" where
  "Compose trs =
     \<lparr>call = (\<lambda>es. case fold_apply trs es SameArray of Inl e \<Rightarrow> Inl e
                   | Inr (arg, SameArray) \<Rightarrow> Inr (arg, arg)
                   | Inr (arg, NewArray es') \<Rightarrow> Inr (arg, es')),
      determine_output_shape = fold_shape trs\<rparr>"

subsection \<open>The histogram binner\<close>

text \<open>
  Modelled from the spec: \<^verbatim>\<open>histo_quantized\<close> is imported from
  \<^verbatim>\<open>metavision_ml.preprocessing.event_to_tensor\<close> and is not among the sources. The buffer
  has shape (B, polarities, height, width). With \<open>reset\<close> the buffer is zeroed first. Each
  event is assigned to a time window and the counter at [window, polarity, y, x] is
  incremented by 1, saturating at 255. B is fixed to 1 in this system, so with one window
  every event falls into window 0; how a time span is cut into more windows is left open by the
  spec and is the parameter \<open>tbin\<close> (number of windows, time span, timestamp). An index outside
  the buffer stops the pass with IndexError, the buffer staying as it was written so far.
\<close>

definition sat_inc :: "8 word \<Rightarrow> 8 word" where
  "sat_inc c = (if c = 255 then 255 else c + 1)"

definition window_of :: "(nat \<Rightarrow> int \<Rightarrow> int \<Rightarrow> nat) \<Rightarrow> nat \<Rightarrow> int \<Rightarrow> int \<Rightarrow> nat" where
  "window_of tbin B tspan ts = (if B = 1 then 0 else tbin B tspan ts)"

definition in_range :: "int \<Rightarrow> nat \<Rightarrow> bool" where
  "in_range i n = (0 \<le> i \<and> i < int n)"

text \<open>Row-major offset of [b, p, y, x] in a buffer of shape (B, P, H, W).\<close>

definition cell_index :: "nat \<Rightarrow> nat \<Rightarrow> nat \<Rightarrow> nat \<Rightarrow> nat \<Rightarrow> nat \<Rightarrow> nat \<Rightarrow> nat" where
  "cell_index P H W b pp yy xx = ((b * P + pp) * H + yy) * W + xx"

definition event_cell ::
  "(nat \<Rightarrow> int \<Rightarrow> int \<Rightarrow> nat) \<Rightarrow> nat list \<Rightarrow> int \<Rightarrow> event \<Rightarrow> nat option" where
  "event_cell tbin shp tspan e =
     (case shp of
        [B, P, H, W] \<Rightarrow>
          (let b = window_of tbin B tspan (ev_t e)
           in if b < B \<and> in_range (ev_p e) P \<and> in_range (ev_y e) H \<and> in_range (ev_x e) W
              then Some (cell_index P H W b (nat (ev_p e)) (nat (ev_y e)) (nat (ev_x e)))
              else None)
      | _ \<Rightarrow> None)"

fun accumulate ::
  "(nat \<Rightarrow> int \<Rightarrow> int \<Rightarrow> nat) \<Rightarrow> nat list \<Rightarrow> int \<Rightarrow> events \<Rightarrow> 8 word list
    \<Rightarrow> 8 word list \<times> exn option" where
  "accumulate tbin shp tspan [] cells = (cells, None)"
| "accumulate tbin shp tspan (e # es) cells =
     (case event_cell tbin shp tspan e of
        None \<Rightarrow> (cells, Some (IndexError ''index out of bounds''))
      | Some i \<Rightarrow>
          (if i < length cells
           then accumulate tbin shp tspan es (cells[i := sat_inc (cells ! i)])
           else (cells, Some (IndexError ''index out of bounds''))))"

definition histo_quantized ::
  "(nat \<Rightarrow> int \<Rightarrow> int \<Rightarrow> nat) \<Rightarrow> events \<Rightarrow> u8array \<Rightarrow> int \<Rightarrow> bool \<Rightarrow> u8array \<times> exn option" where
  "histo_quantized tbin xypt output_array total_tbins_delta_t reset =
     (let cells0 = (if reset then replicate (length (u8_data output_array)) 0
                    else u8_data output_array);
          (cells, err) = accumulate tbin (u8_shape output_array) total_tbins_delta_t xypt cells0
      in (output_array\<lparr>u8_data := cells\<rparr>, err))"

subsection \<open>Effects on the collaborators\<close>

text \<open>
  What a constructor call or a tick did to the outside, in order: a poll of the camera,
  a call of the pipeline (with the batch passed), a request for the pipeline's output
  shape, a call of the binner (events, buffer as passed, time span, reset flag) and a
  tensor sent on the output port.
\<close>

datatype effect =
    GetNextEventBatch
  | ComposeCall events
  | DetermineOutputShape EventVolume
  | HistoQuantized events u8array int bool
  | Send ndarray

fun is_send :: "effect \<Rightarrow> bool" where
  "is_send (Send f) = True"
| "is_send _ = False"

fun is_histo :: "effect \<Rightarrow> bool" where
  "is_histo (HistoQuantized es v d r) = True"
| "is_histo _ = False"



subsection \<open>\<^verbatim>\<open>InivationCamera.__init__\<close>\<close>

type_synonym biases = "(string \<times> int) list"

record InivationCamera =
  proc_shape :: "int list"
  proc_biases :: "biases option"
  proc_device :: string
  proc_transformations :: "compose option"
  proc_num_output_time_bins :: int
  proc_s_out_shape :: "int list"

text \<open>
  The four calls of \<^verbatim>\<open>np.random.rand(n_random_spikes)\<close>: draw number \<open>i\<close> of each. numpy
  draws from [0, 1); the draws are taken as real numbers and the product with the
  sensor size is computed exactly.
\<close>

record draws =
  rand_x :: "nat \<Rightarrow> real"
  rand_y :: "nat \<Rightarrow> real"
  rand_p :: "nat \<Rightarrow> real"
  rand_t :: "nat \<Rightarrow> real"

text \<open>Storing a float into an \<^verbatim>\<open>int\<close> field truncates towards zero.\<close>

definition trunc :: "real \<Rightarrow> int" where
  "trunc r = (if 0 \<le> r then \<lfloor>r\<rfloor> else \<lceil>r\<rceil>)"

definition n_random_spikes :: nat where
  "n_random_spikes = 1000"

definition test_data :: "int \<Rightarrow> int \<Rightarrow> draws \<Rightarrow> events" where
  "test_data h w rnd =
     (let n = n_random_spikes;
          xs = map (\<lambda>i. trunc (rand_x rnd i * real_of_int w)) [0..<n];
          ys = map (\<lambda>i. trunc (rand_y rnd i * real_of_int h)) [0..<n];
          ps = map (\<lambda>i. trunc (rand_p rnd i * 2)) [0..<n];
          ts = map trunc (sort (map (\<lambda>i. rand_t rnd i * 1000000) [0..<n]))
      in map (\<lambda>i. \<lparr>ev_y = ys ! i, ev_x = xs ! i, ev_p = ps ! i, ev_t = ts ! i\<rparr>) [0..<n])"

definition np_max_t :: "events \<Rightarrow> int" where
  "np_max_t es = Max (set (map ev_t es))"

text \<open>
  The body of the \<^verbatim>\<open>try\<close> block (lines 100 to 112): the effects, and the exception
  that left the block, if any. Line 112 passes no \<^verbatim>\<open>reset\<close> argument; the flag is
  recorded as \<open>True\<close>, and on the freshly zeroed buffer it makes no difference (lemma
  \<open>histo_quantized_zeroed\<close>).
\<close>

definition dry_run ::
  "(nat \<Rightarrow> int \<Rightarrow> int \<Rightarrow> nat) \<Rightarrow> draws \<Rightarrow> compose \<Rightarrow> int list \<Rightarrow> int \<Rightarrow> int
    \<Rightarrow> effect list \<times> exn option" where
  "dry_run tbin rnd c shp h w =
     (let td = test_data h w rnd
      in case call c td of
           Inl e \<Rightarrow> ([ComposeCall td], Some e)
         | Inr (td', ret) \<Rightarrow>
             (if length td' > 0
              then (case np_zeros_u8 shp of
                      Inl e \<Rightarrow> ([ComposeCall td], Some e)
                    | Inr volume \<Rightarrow>
                        ([ComposeCall td, HistoQuantized td' volume (np_max_t td') True],
                         snd (histo_quantized tbin td' volume (np_max_t td') True)))
              else ([ComposeCall td], None)))"

text \<open>Lines 84 to 96: the declared output shape.\<close>

definition declared_shape ::
  "int \<times> int \<Rightarrow> compose option \<Rightarrow> int \<Rightarrow> int list option \<Rightarrow> effect list \<times> (exn + int list)" where
  "declared_shape sensor_shape trf n out_shape =
     (case sensor_shape of (h, w) \<Rightarrow>
        (case out_shape of
           Some shp \<Rightarrow> ([], Inr shp)
         | None \<Rightarrow>
             (let event_shape = \<lparr>ev_height = h, ev_width = w, ev_polarities = 2\<rparr>
              in case trf of
                   None \<Rightarrow> ([], Inr [n, ev_polarities event_shape, ev_height event_shape,
                                      ev_width event_shape])
                 | Some c \<Rightarrow>
                     (case determine_output_shape c event_shape of
                        Inl e \<Rightarrow> ([DetermineOutputShape event_shape], Inl e)
                      | Inr v \<Rightarrow> ([DetermineOutputShape event_shape],
                                  Inr [n, ev_polarities v, ev_height v, ev_width v])))))"

definition incompatible :: exn where
  "incompatible = Exception ''Your transformation is not compatible with the provided data.''"

text \<open>
  The constructor. \<^verbatim>\<open>isinstance(num_output_time_bins, int)\<close> holds by the type of the
  argument. The process keeps \<^verbatim>\<open>num_output_time_bins=1\<close> whatever was passed, and its
  output port has the declared shape.
\<close>

definition InivationCamera_init ::
  "(nat \<Rightarrow> int \<Rightarrow> int \<Rightarrow> nat) \<Rightarrow> draws \<Rightarrow> int \<times> int \<Rightarrow> string \<Rightarrow> biases option
    \<Rightarrow> compose option \<Rightarrow> int \<Rightarrow> int list option \<Rightarrow> effect list \<times> (exn + InivationCamera)" where
  "InivationCamera_init tbin rnd sensor_shape dev bias trf n out_shape =
     (if n < 0 \<or> n > 1
      then ([], Inl (ValueError ''Not Implemented: num_output_time_bins must be 1.''))
      else if bias \<noteq> None \<and> dev \<noteq> []
      then ([], Inl (ValueError ''Cant set biases if reading from file.''))
      else
        (case declared_shape sensor_shape trf n out_shape of
           (eff1, Inl e) \<Rightarrow> (eff1, Inl e)
         | (eff1, Inr shp) \<Rightarrow>
             (let proc = \<lparr>proc_shape = shp, proc_biases = bias, proc_device = dev,
                          proc_transformations = trf, proc_num_output_time_bins = 1,
                          proc_s_out_shape = shp\<rparr>
              in case trf of
                   None \<Rightarrow> (eff1, Inr proc)
                 | Some c \<Rightarrow>
                     (case dry_run tbin rnd c shp (fst sensor_shape) (snd sensor_shape) of
                        (eff2, Some e) \<Rightarrow> (eff1 @ eff2, Inl incompatible)
                      | (eff2, None) \<Rightarrow> (eff1 @ eff2, Inr proc)))))"

subsection \<open>\<^verbatim>\<open>PyInivationCameraModel\<close>\<close>

record state =
  self_shape :: "int list"
  self_num_output_time_bins :: int
  self_polarities :: int
  self_height :: int
  self_width :: int
  self_device :: string
  self_biases :: "biases option"
  self_transformations :: "compose option"
  self_volume :: u8array
  self_t_pause :: int
  self_t_last_iteration :: int
  s_out_shape :: "int list"

text \<open>
  \<^verbatim>\<open>__init__(proc_params)\<close>; \<open>t1\<close> and \<open>t2\<close> are the two readings of
  \<^verbatim>\<open>time.time_ns()\<close>. Unpacking the shape needs exactly four entries. Opening the camera
  is taken to succeed.
\<close>

definition model_init :: "InivationCamera \<Rightarrow> int \<Rightarrow> int \<Rightarrow> exn + state" where
  "model_init proc t1 t2 =
     (case proc_shape proc of
        [n, pol, h, w] \<Rightarrow>
          (if proc_biases proc \<noteq> None
           then Inl (NotImplementedError ''Biases are not implemented yet.'')
           else (case np_zeros_u8 [n, pol, h, w] of
                   Inl e \<Rightarrow> Inl e
                 | Inr vol \<Rightarrow>
                     Inr \<lparr>self_shape = proc_shape proc, self_num_output_time_bins = n,
                          self_polarities = pol, self_height = h, self_width = w,
                          self_device = proc_device proc, self_biases = proc_biases proc,
                          self_transformations = proc_transformations proc,
                          self_volume = vol, self_t_pause = t1, self_t_last_iteration = t2,
                          s_out_shape = proc_s_out_shape proc\<rparr>))
      | _ \<Rightarrow> Inl (ValueError ''wrong number of values to unpack''))"

text \<open>Lines 177 to 185: the batch in the internal representation; no batch is an empty array.\<close>

definition to_event :: "dv_event \<Rightarrow> event" where
  "to_event d = \<lparr>ev_y = dv_y d, ev_x = dv_x d, ev_p = dv_polarity d, ev_t = dv_timestamp d\<rparr>"

definition load_events :: "dv_event list option \<Rightarrow> events" where
  "load_events batch = (case batch of Some events_np \<Rightarrow> map to_event events_np | None \<Rightarrow> [])"

text \<open>
  Lines 198 and 199: the pipeline is called as a statement, so \<open>events\<close> afterwards is
  the argument array as the call left it; what the call returned is dropped.
\<close>

definition transform_events :: "compose option \<Rightarrow> events \<Rightarrow> effect list \<times> (exn + events)" where
  "transform_events trf evs =
     (case trf of
        None \<Rightarrow> ([], Inr evs)
      | Some c \<Rightarrow>
          (if length evs > 0
           then (case call c evs of
                   Inl e \<Rightarrow> ([ComposeCall evs], Inl e)
                 | Inr (evs', ret) \<Rightarrow> ([ComposeCall evs], Inr evs'))
           else ([], Inr evs)))"

text \<open>Lines 202 to 206: the frame, the state with the buffer as the binner left it.\<close>

definition to_frame ::
  "(nat \<Rightarrow> int \<Rightarrow> int \<Rightarrow> nat) \<Rightarrow> state \<Rightarrow> events \<Rightarrow> state \<times> effect list \<times> (exn + ndarray)" where
  "to_frame tbin s evs =
     (if length evs > 0
      then (let tspan = ev_t (last evs) - ev_t (hd evs);
                res = histo_quantized tbin evs (self_volume s) tspan True
            in (s\<lparr>self_volume := fst res\<rparr>, [HistoQuantized evs (self_volume s) tspan True],
                (case snd res of Some e \<Rightarrow> Inl e | None \<Rightarrow> Inr (UInt8 (fst res)))))
      else (case np_zeros (s_out_shape s) of
              Inl e \<Rightarrow> (s, [], Inl e)
            | Inr z \<Rightarrow> (s, [], Inr (Float64 z))))"

record tick =
  post :: state
  effects :: "effect list"
  raised :: "exn option"

text \<open>
  One call of \<^verbatim>\<open>run_spk\<close>: \<open>t_now\<close> is the reading of the clock, \<open>batch\<close> what
  \<^verbatim>\<open>getNextEventBatch()\<close> returns when it is called. The result is the state the tick
  leaves, its effects, and the exception it raised, if any. \<^verbatim>\<open>s_out.send\<close> is taken to
  return.
\<close>

definition run_spk ::
  "(nat \<Rightarrow> int \<Rightarrow> int \<Rightarrow> nat) \<Rightarrow> state \<Rightarrow> int \<Rightarrow> dv_event list option \<Rightarrow> tick" where
  "run_spk tbin s t_now batch =
     (if self_t_pause s > self_t_last_iteration s
      then \<lparr>post = s, effects = [],
            raised = Some (NotImplementedError ''Pausing it not implemented yet.'')\<rparr>
      else
        (let delta_t = max 10000 ((t_now - self_t_last_iteration s) div 1000);
             evs = load_events batch
         in case transform_events (self_transformations s) evs of
              (eff1, Inl e) \<Rightarrow>
                \<lparr>post = s, effects = GetNextEventBatch # eff1, raised = Some e\<rparr>
            | (eff1, Inr evs') \<Rightarrow>
                (case to_frame tbin s evs' of
                   (s', eff2, Inl e) \<Rightarrow>
                     \<lparr>post = s', effects = GetNextEventBatch # eff1 @ eff2, raised = Some e\<rparr>
                 | (s', eff2, Inr frames) \<Rightarrow>
                     \<lparr>post = s'\<lparr>self_t_last_iteration := t_now\<rparr>,
                      effects = GetNextEventBatch # eff1 @ eff2 @ [Send frames],
                      raised = None\<rparr>)))"

text \<open>\<^verbatim>\<open>_pause\<close>: the runtime's pause notification at clock reading \<open>t_now\<close>.\<close>

definition pause :: "state \<Rightarrow> int \<Rightarrow> state" where
  "pause s t_now = s\<lparr>self_t_pause := t_now\<rparr>"

text \<open>
  The states a process model can be in: built by its constructor from a process that
  its own constructor returned, then any sequence of ticks and pause notifications.
\<close>

inductive reachable :: "(nat \<Rightarrow> int \<Rightarrow> int \<Rightarrow> nat) \<Rightarrow> state \<Rightarrow> bool" where
  reach_init:
    "InivationCamera_init tbin rnd sensor_shape dev bias trf n out_shape = (eff, Inr proc)
     \<Longrightarrow> model_init proc t1 t2 = Inr s \<Longrightarrow> reachable tbin s"
| reach_tick: "reachable tbin s \<Longrightarrow> reachable tbin (post (run_spk tbin s t_now batch))"
| reach_pause: "reachable tbin s \<Longrightarrow> reachable tbin (pause s t_now)"

text \<open>
  What the constructors establish and every tick keeps: the port has the shape of the
  process, the shape has four non-negative entries, and the buffer has that shape.
\<close>

definition state_ok :: "state \<Rightarrow> bool" where
  "state_ok s =
     (s_out_shape s = self_shape s \<and> length (self_shape s) = 4
      \<and> list_all (\<lambda>d. 0 \<le> d) (self_shape s)
      \<and> u8_shape (self_volume s) = map nat (self_shape s)
      \<and> length (u8_data (self_volume s)) = prod_list (u8_shape (self_volume s)))"

subsection \<open>Reading a frame\<close>

text \<open>The tensors a list of effects sent on the output port, in order.\<close>

fun sent :: "effect list \<Rightarrow> ndarray list" where
  "sent [] = []"
| "sent (Send f # effs) = f # sent effs"
| "sent (_ # effs) = sent effs"

text \<open>An event falls inside a buffer of shape \<open>shp\<close> when all four of its indices do.\<close>

definition in_buffer :: "(nat \<Rightarrow> int \<Rightarrow> int \<Rightarrow> nat) \<Rightarrow> nat list \<Rightarrow> int \<Rightarrow> event \<Rightarrow> bool" where
  "in_buffer tbin shp tspan e = (event_cell tbin shp tspan e \<noteq> None)"

definition inside ::
  "(nat \<Rightarrow> int \<Rightarrow> int \<Rightarrow> nat) \<Rightarrow> nat list \<Rightarrow> int \<Rightarrow> nat \<Rightarrow> event \<Rightarrow> bool" where
  "inside tbin shp tspan n e =
     (case event_cell tbin shp tspan e of None \<Rightarrow> False | Some i \<Rightarrow> i < n)"

text \<open>The number of events of a batch that fall on the cell with offset \<open>i\<close>.\<close>

definition hits :: "(nat \<Rightarrow> int \<Rightarrow> int \<Rightarrow> nat) \<Rightarrow> nat list \<Rightarrow> int \<Rightarrow> events \<Rightarrow> nat \<Rightarrow> nat" where
  "hits tbin shp tspan evs i =
     length (filter (\<lambda>e. event_cell tbin shp tspan e = Some i) evs)"





subsection \<open>Concrete inputs\<close>

definition tbin0 :: "nat \<Rightarrow> int \<Rightarrow> int \<Rightarrow> nat" where
  "tbin0 B tspan ts = 0"

definition draws0 :: draws where
  "draws0 = \<lparr>rand_x = (\<lambda>i. 0), rand_y = (\<lambda>i. 0), rand_p = (\<lambda>i. 0), rand_t = (\<lambda>i. 0)\<rparr>"

definition unit_draws :: "draws \<Rightarrow> bool" where
  "unit_draws rnd =
     list_all (\<lambda>i. 0 \<le> rand_x rnd i \<and> rand_x rnd i < 1 \<and> 0 \<le> rand_y rnd i \<and> rand_y rnd i < 1
                  \<and> 0 \<le> rand_p rnd i \<and> rand_p rnd i < 1 \<and> 0 \<le> rand_t rnd i \<and> rand_t rnd i < 1)
       [0..<n_random_spikes]"

text \<open>A process for a 4 by 4 sensor with no pipeline, and its model at clock reading 0.\<close>

definition proc0 :: InivationCamera where
  "proc0 = \<lparr>proc_shape = [1, 2, 4, 4], proc_biases = None, proc_device = [],
            proc_transformations = None, proc_num_output_time_bins = 1,
            proc_s_out_shape = [1, 2, 4, 4]\<rparr>"

definition state0 :: state where
  "state0 = \<lparr>self_shape = [1, 2, 4, 4], self_num_output_time_bins = 1, self_polarities = 2,
             self_height = 4, self_width = 4, self_device = [], self_biases = None,
             self_transformations = None,
             self_volume = \<lparr>u8_shape = [1, 2, 4, 4], u8_data = replicate 32 0\<rparr>,
             self_t_pause = 0, self_t_last_iteration = 0, s_out_shape = [1, 2, 4, 4]\<rparr>"

text \<open>
  The three events of the end-to-end scenario of the specification, as the camera
  returns them.
\<close>

definition batch3 :: "dv_event list" where
  "batch3 = [\<lparr>dv_timestamp = 0, dv_x = 0, dv_y = 0, dv_polarity = 0\<rparr>,
             \<lparr>dv_timestamp = 5, dv_x = 1, dv_y = 1, dv_polarity = 1\<rparr>,
             \<lparr>dv_timestamp = 10, dv_x = 0, dv_y = 0, dv_polarity = 0\<rparr>]"

text \<open>
  A transformation that filters every event out the way \<^verbatim>\<open>events[mask]\<close> does: it
  returns a new, empty array and leaves its argument as it was.
\<close>

definition mask_all :: transformation where
  "mask_all = \<lparr>apply_events = (\<lambda>es. Inr (es, NewArray [])), infer_output_shape = Inr\<rparr>"

text \<open>
  The pipeline that does to its argument what \<open>c\<close> does, and returns \<open>g\<close> of what \<open>c\<close>
  returns.
\<close>

definition with_return :: "(events \<Rightarrow> events) \<Rightarrow> compose \<Rightarrow> compose" where
  "with_return g c =
     c\<lparr>call := (\<lambda>es. case call c es of Inl e \<Rightarrow> Inl e | Inr (arg, ret) \<Rightarrow> Inr (arg, g ret))\<rparr>"



text \<open>
  A transformation that drops the first event the way \<^verbatim>\<open>events[1:]\<close> does: it returns
  the rest as a new array object and writes nothing to its argument.
\<close>

definition drop_first :: transformation where
  "drop_first = \<lparr>apply_events = (\<lambda>es. Inr (es, NewArray (tl es))), infer_output_shape = Inr\<rparr>"

text \<open>The process and the model for the 4 by 4 sensor with the pipeline \<open>c\<close> configured.\<close>

definition proc_with :: "compose \<Rightarrow> InivationCamera" where
  "proc_with c = proc0\<lparr>proc_transformations := Some c\<rparr>"

definition state_with :: "compose \<Rightarrow> state" where
  "state_with c = state0\<lparr>self_transformations := Some c\<rparr>"





section \<open>Properties\<close>

subsection \<open>The binner\<close>

lemma unat_u8_le: "unat (w :: 8 word) \<le> 255"
proof -
  have "unat w < 2 ^ LENGTH(8)" by (rule unsigned_less)
  then show ?thesis by simp
qed

lemma min_255_unat: "min 255 (unat (w :: 8 word)) = unat w"
  using unat_u8_le [of w] by simp

lemma unat_sat_inc: "unat (sat_inc c) = min 255 (unat c + 1)"
proof (cases "c = 255")
  case True
  then show ?thesis by (simp add: sat_inc_def)
next
  case False
  have "unat c \<noteq> 255"
  proof
    assume "unat c = 255"
    then have "unat c = unat (255 :: 8 word)" by simp
    then have "c = 255" by (simp only: word_unat_eq_iff)
    with False show False by simp
  qed
  with unat_u8_le [of c] have lt: "unat c < 255" by simp
  then have "unat (c + 1) = unat c + 1"
    by (simp add: unat_word_ariths)
  with False lt show ?thesis by (simp add: sat_inc_def)
qed

lemma histo_quantized_zeroed:
  assumes "u8_data a = replicate k 0"
  shows "histo_quantized tbin evs a tspan False = histo_quantized tbin evs a tspan True"
  using assms by (simp add: histo_quantized_def)

lemma accumulate_length: "length (fst (accumulate tbin shp tspan evs cells)) = length cells"
  by (induction evs arbitrary: cells) (auto split: option.splits)

lemma accumulate_inside:
  assumes "list_all (inside tbin shp tspan (length cells)) evs"
  shows "snd (accumulate tbin shp tspan evs cells) = None
         \<and> (\<forall>i<length cells. unat (fst (accumulate tbin shp tspan evs cells) ! i)
               = min 255 (unat (cells ! i) + hits tbin shp tspan evs i))"
  using assms
proof (induction evs arbitrary: cells)
  case Nil
  then show ?case by (simp add: hits_def min_255_unat)
next
  case (Cons e evs)
  from Cons.prems obtain j where j: "event_cell tbin shp tspan e = Some j" "j < length cells"
    by (auto simp: inside_def split: option.splits)
  let ?c1 = "cells[j := sat_inc (cells ! j)]"
  have rest: "list_all (inside tbin shp tspan (length ?c1)) evs"
    using Cons.prems by simp
  note ih = Cons.IH [OF rest]
  have step: "accumulate tbin shp tspan (e # evs) cells = accumulate tbin shp tspan evs ?c1"
    using j by simp
  have cnt: "\<forall>i<length cells. min 255 (unat (?c1 ! i) + hits tbin shp tspan evs i)
               = min 255 (unat (cells ! i) + hits tbin shp tspan (e # evs) i)"
  proof (intro allI impI)
    fix i assume i: "i < length cells"
    show "min 255 (unat (?c1 ! i) + hits tbin shp tspan evs i)
               = min 255 (unat (cells ! i) + hits tbin shp tspan (e # evs) i)"
    proof (cases "i = j")
      case True
      then show ?thesis using j i by (simp add: hits_def unat_sat_inc)
    next
      case False
      then show ?thesis using j i by (auto simp add: hits_def)
    qed
  qed
  show ?case unfolding step using ih cnt by simp
qed

lemma mixed_radix_less:
  fixes a b A B :: nat
  assumes "a < A" "b < B"
  shows "a * B + b < A * B"
proof -
  have "a * B + b < a * B + B" using assms by simp
  also have "\<dots> = (a + 1) * B" by simp
  also have "\<dots> \<le> A * B" using assms by (intro mult_le_mono1) simp
  finally show ?thesis .
qed

lemma cell_index_split:
  "cell_index P H W b pp yy xx = b * (P * H * W) + ((pp * H + yy) * W + xx)"
  by (simp add: cell_index_def algebra_simps)

lemma cell_offset_less:
  fixes pp yy xx P H W :: nat
  assumes "pp < P" "yy < H" "xx < W"
  shows "(pp * H + yy) * W + xx < P * H * W"
proof -
  have "pp * H + yy < P * H" using assms(1,2) by (rule mixed_radix_less)
  then show ?thesis using assms(3) by (rule mixed_radix_less)
qed

lemma event_cell_SomeD:
  assumes "event_cell tbin [B, P, H, W] tspan e = Some i"
  shows "\<exists>r. i = window_of tbin B tspan (ev_t e) * (P * H * W) + r \<and> r < P * H * W
             \<and> window_of tbin B tspan (ev_t e) < B"
proof -
  from assms have b: "window_of tbin B tspan (ev_t e) < B"
    and p: "nat (ev_p e) < P" and y: "nat (ev_y e) < H" and x: "nat (ev_x e) < W"
    and i: "i = cell_index P H W (window_of tbin B tspan (ev_t e))
                  (nat (ev_p e)) (nat (ev_y e)) (nat (ev_x e))"
    by (auto simp: event_cell_def in_range_def Let_def split: if_splits)
  show ?thesis
    using b i cell_offset_less [OF p y x] by (auto simp: cell_index_split)
qed

lemma event_cell_less:
  assumes "event_cell tbin [B, P, H, W] tspan e = Some i"
  shows "i < B * (P * H * W)"
proof -
  from event_cell_SomeD [OF assms] obtain r where
    i: "i = window_of tbin B tspan (ev_t e) * (P * H * W) + r" and r: "r < P * H * W"
    and b: "window_of tbin B tspan (ev_t e) < B" by blast
  show ?thesis unfolding i using b r by (rule mixed_radix_less)
qed





subsection \<open>The concrete process and its model\<close>

lemma proc0_constructed:
  "InivationCamera_init tbin rnd (4, 4) [] None None 1 None = ([], Inr proc0)"
  by (simp add: InivationCamera_init_def declared_shape_def proc0_def)

lemma state0_constructed: "model_init proc0 0 0 = Inr state0"
  by (simp add: model_init_def proc0_def state0_def np_zeros_u8_def)

lemma state0_reachable: "reachable tbin state0"
  using proc0_constructed state0_constructed by (rule reach_init)

subsection \<open>The pause branch\<close>

text \<open>
  C6. A tick that starts with \<open>pause_time > last_iteration_time\<close> raises the
  "pausing not implemented" fault. It has no effect at all: the camera is not polled
  (the result does not depend on the batch the camera would return), nothing is sent,
  and the state it leaves is the state it started in, so \<open>last_iteration_time\<close> is
  unchanged.
\<close>

theorem pause_not_implemented:
  assumes "self_t_pause s > self_t_last_iteration s"
  shows "raised (run_spk tbin s t_now batch)
           = Some (NotImplementedError ''Pausing it not implemented yet.'')
         \<and> effects (run_spk tbin s t_now batch) = []
         \<and> post (run_spk tbin s t_now batch) = s"
  using assms by (simp add: run_spk_def)

text \<open>
  The branch is reached: after a pause notification at clock reading 3, the model built
  at clock reading 0 is in such a state, and its next tick raises.
\<close>

theorem pause_not_implemented_witness:
  "reachable tbin0 (pause state0 3)
   \<and> self_t_pause (pause state0 3) > self_t_last_iteration (pause state0 3)
   \<and> raised (run_spk tbin0 (pause state0 3) 7 None)
           = Some (NotImplementedError ''Pausing it not implemented yet.'')
   \<and> effects (run_spk tbin0 (pause state0 3) 7 None) = []
   \<and> post (run_spk tbin0 (pause state0 3) 7 None) = pause state0 3"
proof -
  have h: "self_t_pause (pause state0 3) > self_t_last_iteration (pause state0 3)"
    by (simp add: pause_def state0_def)
  have r: "reachable tbin0 (pause state0 3)"
    by (rule reach_pause) (rule state0_reachable)
  show ?thesis
    using r h pause_not_implemented [OF h, of tbin0 7 None] by simp
qed

subsection \<open>What every state of the model satisfies\<close>

lemma histo_quantized_shape:
  "u8_shape (fst (histo_quantized tbin evs a tspan reset)) = u8_shape a"
  by (simp add: histo_quantized_def Let_def split: prod.splits)

lemma histo_quantized_length:
  "length (u8_data (fst (histo_quantized tbin evs a tspan reset))) = length (u8_data a)"
proof -
  have "length (fst (accumulate tbin (u8_shape a) tspan evs
          (if reset then replicate (length (u8_data a)) 0 else u8_data a))) = length (u8_data a)"
    by (simp add: accumulate_length)
  then show ?thesis
    by (simp add: histo_quantized_def Let_def split: prod.splits) (metis fst_conv)
qed

lemma init_s_out_shape:
  assumes "InivationCamera_init tbin rnd sensor_shape dev bias trf n out_shape = (eff, Inr proc)"
  shows "proc_s_out_shape proc = proc_shape proc"
  using assms
  by (auto simp: InivationCamera_init_def Let_def
           split: if_splits prod.splits sum.splits option.splits)

lemma list_ex_negative: "list_ex (\<lambda>d. d < (0::int)) shp \<longleftrightarrow> \<not> list_all (\<lambda>d. 0 \<le> d) shp"
  by (induction shp) auto

lemma np_zeros_u8_Inr:
  "np_zeros_u8 shp = Inr a \<longleftrightarrow>
     list_all (\<lambda>d. 0 \<le> d) shp
     \<and> a = \<lparr>u8_shape = map nat shp, u8_data = replicate (prod_list (map nat shp)) 0\<rparr>"
  by (auto simp: np_zeros_u8_def list_ex_negative)

lemma np_zeros_Inr:
  "np_zeros shp = Inr a \<longleftrightarrow>
     list_all (\<lambda>d. 0 \<le> d) shp
     \<and> a = \<lparr>f64_shape = map nat shp, f64_data = replicate (prod_list (map nat shp)) 0\<rparr>"
  by (auto simp: np_zeros_def list_ex_negative)

lemma model_init_state_ok:
  assumes "model_init proc t1 t2 = Inr s" "proc_s_out_shape proc = proc_shape proc"
  shows "state_ok s"
  using assms
  by (auto simp: model_init_def state_ok_def np_zeros_u8_Inr
           split: list.splits if_splits sum.splits)

lemma to_frame_state_ok:
  assumes "state_ok s"
  shows "state_ok (fst (to_frame tbin s evs))"
  using assms
  by (auto simp: to_frame_def state_ok_def Let_def histo_quantized_shape histo_quantized_length
           split: sum.splits)

lemma run_spk_state_ok:
  assumes "state_ok s"
  shows "state_ok (post (run_spk tbin s t_now batch))"
proof -
  have "state_ok (fst (to_frame tbin s evs))" for evs
    using assms by (rule to_frame_state_ok)
  then have "to_frame tbin s evs = (s', rest) \<Longrightarrow> state_ok s'" for evs s' rest
    by (metis fst_conv)
  moreover have "state_ok s' \<Longrightarrow> state_ok (s'\<lparr>self_t_last_iteration := t\<rparr>)" for s' t
    by (simp add: state_ok_def)
  ultimately show ?thesis
    using assms
    by (auto simp: run_spk_def Let_def split: prod.splits sum.splits)
qed

lemma reachable_state_ok: "reachable tbin s \<Longrightarrow> state_ok s"
proof (induction rule: reachable.induct)
  case (reach_init tbin rnd sensor_shape dev bias trf n out_shape eff proc t1 t2 s)
  then show ?case
    by (intro model_init_state_ok [of proc t1 t2 s] init_s_out_shape)
next
  case (reach_tick tbin s t_now batch)
  then show ?case by (simp add: run_spk_state_ok)
next
  case (reach_pause tbin s t_now)
  then show ?case by (simp add: pause_def state_ok_def)
qed

subsection \<open>One tick, case by case\<close>

lemma run_spk_transform_raises:
  assumes "\<not> self_t_pause s > self_t_last_iteration s"
      and "transform_events (self_transformations s) (load_events batch) = (eff1, Inl e)"
  shows "run_spk tbin s t_now batch
           = \<lparr>post = s, effects = GetNextEventBatch # eff1, raised = Some e\<rparr>"
  using assms by (simp add: run_spk_def)

lemma run_spk_empty:
  assumes "\<not> self_t_pause s > self_t_last_iteration s"
      and "transform_events (self_transformations s) (load_events batch) = (eff1, Inr [])"
      and "np_zeros (s_out_shape s) = Inr z"
  shows "run_spk tbin s t_now batch
           = \<lparr>post = s\<lparr>self_t_last_iteration := t_now\<rparr>,
              effects = GetNextEventBatch # eff1 @ [Send (Float64 z)], raised = None\<rparr>"
  using assms by (simp add: run_spk_def to_frame_def)

lemma run_spk_nonempty:
  assumes "\<not> self_t_pause s > self_t_last_iteration s"
      and "transform_events (self_transformations s) (load_events batch) = (eff1, Inr evs)"
      and "evs \<noteq> []"
      and "histo_quantized tbin evs (self_volume s) (ev_t (last evs) - ev_t (hd evs)) True
             = (vol, err)"
  shows "run_spk tbin s t_now batch
           = (case err of
                None \<Rightarrow>
                  \<lparr>post = s\<lparr>self_volume := vol, self_t_last_iteration := t_now\<rparr>,
                   effects = GetNextEventBatch # eff1
                     @ [HistoQuantized evs (self_volume s) (ev_t (last evs) - ev_t (hd evs)) True,
                        Send (UInt8 vol)],
                   raised = None\<rparr>
              | Some e \<Rightarrow>
                  \<lparr>post = s\<lparr>self_volume := vol\<rparr>,
                   effects = GetNextEventBatch # eff1
                     @ [HistoQuantized evs (self_volume s) (ev_t (last evs) - ev_t (hd evs)) True],
                   raised = Some e\<rparr>)"
  using assms by (simp add: run_spk_def to_frame_def Let_def split: option.splits)

lemma sent_append: "sent (xs @ ys) = sent xs @ sent ys"
  by (induction xs rule: sent.induct) simp_all

lemma transform_events_effects:
  "transform_events trf evs = (eff1, res) \<Longrightarrow> sent eff1 = [] \<and> filter is_histo eff1 = []"
  by (auto simp: transform_events_def split: option.splits if_splits sum.splits)

lemma zero_frame_of_state:
  assumes "state_ok s"
  shows "np_zeros (s_out_shape s)
           = Inr \<lparr>f64_shape = map nat (self_shape s),
                  f64_data = replicate (prod_list (map nat (self_shape s))) 0\<rparr>"
  using assms by (simp add: state_ok_def np_zeros_Inr)

lemma map_int_nat:
  "list_all (\<lambda>d. 0 \<le> d) shp \<Longrightarrow> map int (map nat shp) = shp"
  by (induction shp) auto

subsection \<open>Ticks without events\<close>

text \<open>
  On a tick of a running loop (the pause branch is not taken, so the camera is polled)
  where the camera returns no batch, or the batch is empty, or the pipeline leaves the
  array it was passed empty, the tick raises nothing, never calls the histogram binner,
  and sends exactly one frame: all zeros, of the configured output shape. It ends by
  recording the clock reading. What the pipeline returns plays no part in this.
\<close>

lemma empty_array_zero_frame:
  assumes "reachable tbin s"
      and "\<not> self_t_pause s > self_t_last_iteration s"
      and "batch = None \<or> load_events batch = []
           \<or> (\<exists>c ret. self_transformations s = Some c
                      \<and> call c (load_events batch) = Inr ([], ret))"
  shows "raised (run_spk tbin s t_now batch) = None
         \<and> filter is_histo (effects (run_spk tbin s t_now batch)) = []
         \<and> (\<exists>frame. sent (effects (run_spk tbin s t_now batch)) = [frame]
                \<and> nd_all_zero frame
                \<and> map int (nd_shape frame) = self_shape s
                \<and> nd_size frame = prod_list (nd_shape frame))
         \<and> post (run_spk tbin s t_now batch) = s\<lparr>self_t_last_iteration := t_now\<rparr>"
proof -
  have ok: "state_ok s" using assms(1) by (rule reachable_state_ok)
  have "\<exists>eff1. transform_events (self_transformations s) (load_events batch) = (eff1, Inr [])"
    using assms(3)
    by (auto simp: transform_events_def load_events_def split: option.splits)
  then obtain eff1 where
    tr: "transform_events (self_transformations s) (load_events batch) = (eff1, Inr [])"
    by blast
  let ?z = "\<lparr>f64_shape = map nat (self_shape s),
             f64_data = replicate (prod_list (map nat (self_shape s))) (0::real)\<rparr>"
  have run: "run_spk tbin s t_now batch
           = \<lparr>post = s\<lparr>self_t_last_iteration := t_now\<rparr>,
              effects = GetNextEventBatch # eff1 @ [Send (Float64 ?z)], raised = None\<rparr>"
    using assms(2) tr zero_frame_of_state [OF ok] by (rule run_spk_empty)
  have shp: "map int (map nat (self_shape s)) = self_shape s"
    using ok by (intro map_int_nat) (simp add: state_ok_def)
  have "sent (GetNextEventBatch # eff1 @ [Send (Float64 ?z)]) = [Float64 ?z]"
    using transform_events_effects [OF tr] by (simp add: sent_append)
  moreover have "filter is_histo (GetNextEventBatch # eff1 @ [Send (Float64 ?z)]) = []"
    using transform_events_effects [OF tr] by simp
  moreover have "nd_all_zero (Float64 ?z)" by (simp add: list_all_iff)
  ultimately show ?thesis
    unfolding run using shp by simp
qed

lemma empty_array_zero_frame_example:
  "raised (run_spk tbin0 state0 5 None) = None
   \<and> filter is_histo (effects (run_spk tbin0 state0 5 None)) = []
   \<and> (\<exists>frame. sent (effects (run_spk tbin0 state0 5 None)) = [frame]
          \<and> nd_all_zero frame
          \<and> map int (nd_shape frame) = [1, 2, 4, 4]
          \<and> nd_size frame = prod_list (nd_shape frame))
   \<and> post (run_spk tbin0 state0 5 None) = state0\<lparr>self_t_last_iteration := 5\<rparr>"
proof -
  have p: "\<not> self_t_pause state0 > self_t_last_iteration state0"
    by (simp add: state0_def)
  have sh: "self_shape state0 = [1, 2, 4, 4]" by (simp add: state0_def)
  show ?thesis
    using empty_array_zero_frame [OF state0_reachable p, where batch = None and t_now = 5
                                    and tbin = tbin0] sh
    by simp
qed

subsection \<open>Ticks with events\<close>

text \<open>
  On a tick of a running loop where the batch is non-empty (and, when a pipeline is
  configured, the pipeline returns and leaves the array it was passed, \<open>evs\<close>,
  non-empty), the effects are, in this order: the poll, the call of the pipeline when one
  is configured, one call of the binner with the array as the pipeline left it, the
  model's buffer, the time span \<open>last timestamp - first timestamp\<close> of that array and
  \<open>reset = True\<close>, and the send of the buffer the binner wrote. If the binner raises,
  the tick raises that exception and sends nothing. What the pipeline returns plays no
  part in this.
\<close>

lemma nonempty_array_binned:
  assumes "\<not> self_t_pause s > self_t_last_iteration s"
      and "load_events batch \<noteq> []"
      and "(self_transformations s = None \<and> evs = load_events batch)
           \<or> (\<exists>c ret. self_transformations s = Some c
                      \<and> call c (load_events batch) = Inr (evs, ret))"
      and "evs \<noteq> []"
      and "res = histo_quantized tbin evs (self_volume s) (ev_t (last evs) - ev_t (hd evs)) True"
  shows "effects (run_spk tbin s t_now batch)
           = GetNextEventBatch
             # (case self_transformations s of None \<Rightarrow> []
                | Some c \<Rightarrow> [ComposeCall (load_events batch)])
             @ [HistoQuantized evs (self_volume s) (ev_t (last evs) - ev_t (hd evs)) True]
             @ (case snd res of None \<Rightarrow> [Send (UInt8 (fst res))] | Some e \<Rightarrow> [])
         \<and> raised (run_spk tbin s t_now batch) = snd res
         \<and> self_volume (post (run_spk tbin s t_now batch)) = fst res"
proof -
  let ?eff1 = "case self_transformations s of None \<Rightarrow> []
               | Some c \<Rightarrow> [ComposeCall (load_events batch)]"
  have tr: "transform_events (self_transformations s) (load_events batch) = (?eff1, Inr evs)"
    using assms(2,3) by (auto simp: transform_events_def)
  have hq: "histo_quantized tbin evs (self_volume s) (ev_t (last evs) - ev_t (hd evs)) True
              = (fst res, snd res)"
    using assms(5) by simp
  show ?thesis
    unfolding run_spk_nonempty [OF assms(1) tr assms(4) hq]
    by (simp split: option.splits)
qed

text \<open>
  The end-to-end scenario of the specification: a 4 by 4 sensor, no pipeline, three
  events. Channel 0 holds 2 at (0, 0), channel 1 holds 1 at (1, 1), every other cell 0.
\<close>

lemma scenario_frame:
  "histo_quantized tbin (map to_event batch3) (self_volume state0) 10 True
     = (\<lparr>u8_shape = [1, 2, 4, 4],
         u8_data = [2, 0, 0, 0, 0, 0, 0, 0, 0, 0, 0, 0, 0, 0, 0, 0,
                    0, 0, 0, 0, 0, 1, 0, 0, 0, 0, 0, 0, 0, 0, 0, 0]\<rparr>, None)"
  by code_simp


lemma batch3_events:
  "load_events (Some batch3) \<noteq> []"
  "ev_t (last (map to_event batch3)) - ev_t (hd (map to_event batch3)) = 10"
  by (simp_all add: load_events_def batch3_def to_event_def)

lemma nonempty_array_binned_example:
  "effects (run_spk tbin0 state0 20 (Some batch3))
     = [GetNextEventBatch,
        HistoQuantized (map to_event batch3) (self_volume state0) 10 True,
        Send (UInt8 \<lparr>u8_shape = [1, 2, 4, 4],
                     u8_data = [2, 0, 0, 0, 0, 0, 0, 0, 0, 0, 0, 0, 0, 0, 0, 0,
                                0, 0, 0, 0, 0, 1, 0, 0, 0, 0, 0, 0, 0, 0, 0, 0]\<rparr>)]
   \<and> raised (run_spk tbin0 state0 20 (Some batch3)) = None
   \<and> self_volume (post (run_spk tbin0 state0 20 (Some batch3)))
       = \<lparr>u8_shape = [1, 2, 4, 4],
          u8_data = [2, 0, 0, 0, 0, 0, 0, 0, 0, 0, 0, 0, 0, 0, 0, 0,
                     0, 0, 0, 0, 0, 1, 0, 0, 0, 0, 0, 0, 0, 0, 0, 0]\<rparr>"
proof -
  have h1: "\<not> self_t_pause state0 > self_t_last_iteration state0"
    by (simp add: state0_def)
  have h3: "(self_transformations state0 = None \<and> map to_event batch3 = load_events (Some batch3))
           \<or> (\<exists>c ret. self_transformations state0 = Some c
                      \<and> call c (load_events (Some batch3)) = Inr (map to_event batch3, ret))"
    by (simp add: state0_def load_events_def)
  have h4: "map to_event batch3 \<noteq> []" by (simp add: batch3_def)
  have tr: "self_transformations state0 = None" by (simp add: state0_def)
  show ?thesis
    using nonempty_array_binned [OF h1 batch3_events(1) h3 h4 refl, of tbin0 20]
    by (simp add: batch3_events(2) scenario_frame tr)
qed


subsection \<open>What a tick sends\<close>

text \<open>
  A tick of a reachable state that raises nothing sends exactly one tensor, and its shape
  is the configured one.
\<close>

lemma tick_sends_one_frame:
  assumes "reachable tbin s" and "raised (run_spk tbin s t_now batch) = None"
  shows "\<exists>frame. sent (effects (run_spk tbin s t_now batch)) = [frame]
                \<and> map int (nd_shape frame) = self_shape s"
proof -
  have ok: "state_ok s" using assms(1) by (rule reachable_state_ok)
  have shp: "map int (map nat (self_shape s)) = self_shape s"
    using ok by (intro map_int_nat) (simp add: state_ok_def)
  have np: "\<not> self_t_pause s > self_t_last_iteration s"
    using assms(2) by (auto simp: run_spk_def)
  obtain eff1 res where
    tr: "transform_events (self_transformations s) (load_events batch) = (eff1, res)"
    by (cases "transform_events (self_transformations s) (load_events batch)")
  note e1 = transform_events_effects [OF tr]
  show ?thesis
  proof (cases res)
    case (Inl e)
    with run_spk_transform_raises [OF np tr [unfolded Inl]] assms(2) show ?thesis by simp
  next
    case (Inr evs)
    show ?thesis
    proof (cases "evs = []")
      case True
      from run_spk_empty [OF np tr [unfolded Inr True] zero_frame_of_state [OF ok]]
      show ?thesis using e1 shp by (simp add: sent_append)
    next
      case False
      obtain vol err where hq:
        "histo_quantized tbin evs (self_volume s) (ev_t (last evs) - ev_t (hd evs)) True
           = (vol, err)"
        by (cases "histo_quantized tbin evs (self_volume s) (ev_t (last evs) - ev_t (hd evs)) True")
      have vs: "u8_shape vol = u8_shape (self_volume s)"
        using histo_quantized_shape [of tbin evs "self_volume s" _ True] hq
        by (metis fst_conv)
      have "u8_shape vol = map nat (self_shape s)"
        using vs ok by (simp add: state_ok_def)
      with run_spk_nonempty [OF np tr [unfolded Inr] False hq] assms(2)
      show ?thesis using e1 shp by (auto simp: sent_append split: option.splits)
    qed
  qed
qed

text \<open>
  C9. The element type is where the code departs from the claim: on a tick without
  events the frame is \<^verbatim>\<open>np.zeros(self.s_out.shape)\<close>, created without a dtype, so it
  is a float64 array, while the frame of a tick with events is the uint8 buffer. Here the
  model built for the 4 by 4 sensor ticks with no batch: the tick raises nothing and the
  one tensor it sends has dtype float64.
\<close>

theorem empty_tick_sends_float64:
  "reachable tbin0 state0
   \<and> raised (run_spk tbin0 state0 5 None) = None
   \<and> map nd_dtype (sent (effects (run_spk tbin0 state0 5 None))) = [float64]"
proof -
  have p: "\<not> self_t_pause state0 > self_t_last_iteration state0"
    by (simp add: state0_def)
  have tr: "transform_events (self_transformations state0) (load_events None) = ([], Inr [])"
    by (simp add: transform_events_def load_events_def state0_def)
  have z: "np_zeros (s_out_shape state0)
             = Inr \<lparr>f64_shape = [1, 2, 4, 4], f64_data = replicate 32 0\<rparr>"
    by (simp add: np_zeros_def state0_def)
  show ?thesis
    unfolding run_spk_empty [OF p tr z] using state0_reachable by simp
qed

subsection \<open>The pipeline's return value\<close>

text \<open>
  A pipeline of transformations none of which writes to its argument leaves the argument
  of the whole call as it was, whatever it returns.
\<close>

lemma fold_apply_untouched:
  assumes "\<forall>tr\<in>set trs. \<forall>es es' r. apply_events tr es = Inr (es', r) \<longrightarrow> es' = es"
      and "fold_apply trs arg cur = Inr (arg', r)"
  shows "arg' = arg"
  using assms
proof (induction trs arbitrary: arg cur)
  case Nil
  then show ?case by simp
next
  case (Cons tr trs)
  have keep: "apply_events tr es = Inr (es', r') \<Longrightarrow> es' = es" for es es' r'
    using Cons.prems(1) by simp
  have rest: "\<forall>tr\<in>set trs. \<forall>es es' r. apply_events tr es = Inr (es', r) \<longrightarrow> es' = es"
    using Cons.prems(1) by simp
  show ?case
  proof (cases cur)
    case SameArray
    with Cons.prems(2) obtain a1 r1 where
      a: "apply_events tr arg = Inr (a1, r1)" and f: "fold_apply trs a1 r1 = Inr (arg', r)"
      by (auto split: sum.splits prod.splits)
    from keep [OF a] Cons.IH [OF rest f] show ?thesis by simp
  next
    case (NewArray es)
    with Cons.prems(2) obtain cur' where "fold_apply trs arg cur' = Inr (arg', r)"
      by (auto split: sum.splits prod.splits returned.splits)
    with rest show ?thesis by (rule Cons.IH)
  qed
qed

lemma Compose_untouched:
  assumes "\<forall>tr\<in>set trs. \<forall>es es' r. apply_events tr es = Inr (es', r) \<longrightarrow> es' = es"
      and "call (Compose trs) es = Inr (arg, ret)"
  shows "arg = es"
proof -
  from assms(2) obtain r where "fold_apply trs es SameArray = Inr (arg, r)"
    by (auto simp: Compose_def split: sum.splits prod.splits returned.splits)
  with assms(1) show ?thesis by (rule fold_apply_untouched)
qed

lemma call_mask_all: "call (Compose [mask_all]) es = Inr (es, [])"
  by (simp add: Compose_def mask_all_def)

lemma length_test_data: "length (test_data h w rnd) = 1000"
  by (simp add: test_data_def Let_def n_random_spikes_def)

lemma call_with_return:
  "call (with_return g c) es
     = (case call c es of Inl e \<Rightarrow> Inl e | Inr (arg, ret) \<Rightarrow> Inr (arg, g ret))"
  by (simp add: with_return_def)

lemma transform_events_with_return:
  "transform_events (Some (with_return g c)) evs = transform_events (Some c) evs"
  by (auto simp: transform_events_def call_with_return split: sum.splits)

lemma transform_events_untouched:
  assumes "call m evs = Inr (evs, ret)"
  shows "transform_events (Some m) evs = (if evs = [] then [] else [ComposeCall evs], Inr evs)"
  using assms by (simp add: transform_events_def)

lemma to_frame_transformations:
  "to_frame tbin (s\<lparr>self_transformations := trf\<rparr>) evs
     = (case to_frame tbin s evs of (s', rest) \<Rightarrow> (s'\<lparr>self_transformations := trf\<rparr>, rest))"
  by (simp add: to_frame_def Let_def split: sum.splits)

lemma scenario_tick:
  "run_spk tbin state0 20 (Some batch3)
     = \<lparr>post = state0\<lparr>self_volume :=
                 \<lparr>u8_shape = [1, 2, 4, 4],
                  u8_data = [2, 0, 0, 0, 0, 0, 0, 0, 0, 0, 0, 0, 0, 0, 0, 0,
                             0, 0, 0, 0, 0, 1, 0, 0, 0, 0, 0, 0, 0, 0, 0, 0]\<rparr>,
               self_t_last_iteration := 20\<rparr>,
        effects = [GetNextEventBatch,
                   HistoQuantized (map to_event batch3) (self_volume state0) 10 True,
                   Send (UInt8 \<lparr>u8_shape = [1, 2, 4, 4],
                     u8_data = [2, 0, 0, 0, 0, 0, 0, 0, 0, 0, 0, 0, 0, 0, 0, 0,
                                0, 0, 0, 0, 0, 1, 0, 0, 0, 0, 0, 0, 0, 0, 0, 0]\<rparr>)],
        raised = None\<rparr>"
proof -
  have p: "\<not> self_t_pause state0 > self_t_last_iteration state0"
    by (simp add: state0_def)
  have tr: "transform_events (self_transformations state0) (load_events (Some batch3))
              = ([], Inr (map to_event batch3))"
    by (simp add: transform_events_def state0_def load_events_def)
  have ne: "map to_event batch3 \<noteq> []" by (simp add: batch3_def)
  have hq: "histo_quantized tbin (map to_event batch3) (self_volume state0)
              (ev_t (last (map to_event batch3)) - ev_t (hd (map to_event batch3))) True
            = (\<lparr>u8_shape = [1, 2, 4, 4],
                u8_data = [2, 0, 0, 0, 0, 0, 0, 0, 0, 0, 0, 0, 0, 0, 0, 0,
                           0, 0, 0, 0, 0, 1, 0, 0, 0, 0, 0, 0, 0, 0, 0, 0]\<rparr>, None)"
    by (simp only: batch3_events(2) scenario_frame)
  show ?thesis
    unfolding run_spk_nonempty [OF p tr ne hq] by (simp add: batch3_events(2))
qed


text \<open>
  C10. Both the tick and the dry run of the constructor use the pipeline for what it does
  to the array passed and drop what it returns: replacing the returned batch by any
  function \<open>g\<close> of it changes neither the effects, nor the exception, nor the buffer of a
  tick, nor the dry run. So for a pipeline \<open>m\<close> that returns its result without writing
  to its argument, the binner is called exactly as on the same tick without any pipeline,
  the same frame is sent, and the dry run bins the synthetic events themselves.
\<close>

theorem pipeline_return_value_dropped:
  assumes "call m (load_events batch) = Inr (load_events batch, ret)"
      and "call m (test_data h w rnd) = Inr (test_data h w rnd, ret')"
  shows "effects (run_spk tbin (s\<lparr>self_transformations := Some (with_return g c)\<rparr>) t_now batch)
           = effects (run_spk tbin (s\<lparr>self_transformations := Some c\<rparr>) t_now batch)
         \<and> raised (run_spk tbin (s\<lparr>self_transformations := Some (with_return g c)\<rparr>) t_now batch)
           = raised (run_spk tbin (s\<lparr>self_transformations := Some c\<rparr>) t_now batch)
         \<and> self_volume (post (run_spk tbin (s\<lparr>self_transformations := Some (with_return g c)\<rparr>) t_now batch))
           = self_volume (post (run_spk tbin (s\<lparr>self_transformations := Some c\<rparr>) t_now batch))
         \<and> dry_run tbin rnd (with_return g c) shp h w = dry_run tbin rnd c shp h w
         \<and> filter is_histo (effects (run_spk tbin (s\<lparr>self_transformations := Some m\<rparr>) t_now batch))
           = filter is_histo (effects (run_spk tbin (s\<lparr>self_transformations := None\<rparr>) t_now batch))
         \<and> sent (effects (run_spk tbin (s\<lparr>self_transformations := Some m\<rparr>) t_now batch))
           = sent (effects (run_spk tbin (s\<lparr>self_transformations := None\<rparr>) t_now batch))
         \<and> raised (run_spk tbin (s\<lparr>self_transformations := Some m\<rparr>) t_now batch)
           = raised (run_spk tbin (s\<lparr>self_transformations := None\<rparr>) t_now batch)
         \<and> filter is_histo (fst (dry_run tbin rnd m shp h w))
           = (case np_zeros_u8 shp of
                Inl e \<Rightarrow> []
              | Inr volume \<Rightarrow> [HistoQuantized (test_data h w rnd) volume
                                 (np_max_t (test_data h w rnd)) True])"
proof -
  let ?sg = "s\<lparr>self_transformations := Some (with_return g c)\<rparr>"
  let ?sc = "s\<lparr>self_transformations := Some c\<rparr>"
  let ?sm = "s\<lparr>self_transformations := Some m\<rparr>"
  let ?s0 = "s\<lparr>self_transformations := None\<rparr>"
  have A: "effects (run_spk tbin ?sg t_now batch) = effects (run_spk tbin ?sc t_now batch)
         \<and> raised (run_spk tbin ?sg t_now batch) = raised (run_spk tbin ?sc t_now batch)
         \<and> self_volume (post (run_spk tbin ?sg t_now batch))
           = self_volume (post (run_spk tbin ?sc t_now batch))"
    by (simp add: run_spk_def Let_def transform_events_with_return to_frame_transformations
             split: prod.splits sum.splits)
  have B: "dry_run tbin rnd (with_return g c) shp h w = dry_run tbin rnd c shp h w"
    by (simp add: dry_run_def Let_def call_with_return split: sum.splits prod.splits)
  have none: "transform_events None evs = ([], Inr evs)" for evs
    by (simp add: transform_events_def)
  have C: "filter is_histo (effects (run_spk tbin ?sm t_now batch))
             = filter is_histo (effects (run_spk tbin ?s0 t_now batch))
         \<and> sent (effects (run_spk tbin ?sm t_now batch))
             = sent (effects (run_spk tbin ?s0 t_now batch))
         \<and> raised (run_spk tbin ?sm t_now batch) = raised (run_spk tbin ?s0 t_now batch)"
    by (simp add: run_spk_def Let_def transform_events_untouched [OF assms(1)] none
          to_frame_transformations split: prod.splits sum.splits)
  have D: "filter is_histo (fst (dry_run tbin rnd m shp h w))
           = (case np_zeros_u8 shp of
                Inl e \<Rightarrow> []
              | Inr volume \<Rightarrow> [HistoQuantized (test_data h w rnd) volume
                                 (np_max_t (test_data h w rnd)) True])"
  proof -
    have "test_data h w rnd \<noteq> []"
      using length_test_data [of h w rnd] by auto
    then show ?thesis
      by (simp add: dry_run_def Let_def assms(2) split: sum.splits)
  qed
  from A B C D show ?thesis by simp
qed


text \<open>
  A pipeline that filters every event out by returning a new empty array: the tick still
  bins and sends all three events of the scenario.
\<close>

theorem pipeline_return_value_dropped_witness:
  "call (Compose [mask_all]) (load_events (Some batch3)) = Inr (load_events (Some batch3), [])
   \<and> filter is_histo (effects (run_spk tbin0
         (state0\<lparr>self_transformations := Some (Compose [mask_all])\<rparr>) 20 (Some batch3)))
       = [HistoQuantized (map to_event batch3) (self_volume state0) 10 True]
   \<and> sent (effects (run_spk tbin0
         (state0\<lparr>self_transformations := Some (Compose [mask_all])\<rparr>) 20 (Some batch3)))
       = [UInt8 \<lparr>u8_shape = [1, 2, 4, 4],
                 u8_data = [2, 0, 0, 0, 0, 0, 0, 0, 0, 0, 0, 0, 0, 0, 0, 0,
                            0, 0, 0, 0, 0, 1, 0, 0, 0, 0, 0, 0, 0, 0, 0, 0]\<rparr>]
   \<and> filter is_histo (fst (dry_run tbin0 draws0 (Compose [mask_all]) [1, 2, 4, 4] 4 4))
       = [HistoQuantized (test_data 4 4 draws0)
            \<lparr>u8_shape = [1, 2, 4, 4], u8_data = replicate 32 0\<rparr>
            (np_max_t (test_data 4 4 draws0)) True]"
proof -
  have s0: "state0\<lparr>self_transformations := None\<rparr> = state0"
    by (simp add: state0_def)
  have z: "np_zeros_u8 [1, 2, 4, 4] = Inr \<lparr>u8_shape = [1, 2, 4, 4], u8_data = replicate 32 0\<rparr>"
    by (simp add: np_zeros_u8_def)
  show ?thesis
    using pipeline_return_value_dropped [OF call_mask_all call_mask_all,
            where tbin = tbin0 and s = state0 and t_now = 20 and batch = "Some batch3"
              and h = 4 and w = 4 and rnd = draws0 and shp = "[1, 2, 4, 4]"
              and c = "Compose [mask_all]" and g = id]
    by (simp add: s0 z scenario_tick call_mask_all)
qed

subsection \<open>The synthetic events of the dry run\<close>


lemma trunc_scaled:
  assumes "0 \<le> r" "r < 1" "0 < k"
  shows "0 \<le> trunc (r * real_of_int k) \<and> trunc (r * real_of_int k) < k"
proof -
  have nn: "0 \<le> r * real_of_int k" using assms by simp
  have "r * real_of_int k < 1 * real_of_int k"
    using assms by (intro mult_strict_right_mono) simp_all
  then have lt: "r * real_of_int k < real_of_int k" by simp
  have "\<lfloor>r * real_of_int k\<rfloor> < k" using lt by (simp add: floor_less_iff)
  moreover have "0 \<le> \<lfloor>r * real_of_int k\<rfloor>" using nn by simp
  ultimately show ?thesis using nn by (simp add: trunc_def)
qed


lemma test_data_fields:
  assumes "i < n_random_spikes"
  shows "test_data h w rnd ! i
           = \<lparr>ev_y = trunc (rand_y rnd i * real_of_int h),
              ev_x = trunc (rand_x rnd i * real_of_int w),
              ev_p = trunc (rand_p rnd i * 2),
              ev_t = map trunc (sort (map (\<lambda>i. rand_t rnd i * 1000000) [0..<n_random_spikes])) ! i\<rparr>"
  using assms by (simp add: test_data_def Let_def)



lemma test_data_in_sensor:
  assumes "unit_draws rnd" "0 < h" "0 < w"
  shows "list_all (\<lambda>e. 0 \<le> ev_x e \<and> ev_x e < w \<and> 0 \<le> ev_y e \<and> ev_y e < h
                      \<and> (ev_p e = 0 \<or> ev_p e = 1)) (test_data h w rnd)"
proof -
  have "0 \<le> ev_x (test_data h w rnd ! i) \<and> ev_x (test_data h w rnd ! i) < w
        \<and> 0 \<le> ev_y (test_data h w rnd ! i) \<and> ev_y (test_data h w rnd ! i) < h
        \<and> (ev_p (test_data h w rnd ! i) = 0 \<or> ev_p (test_data h w rnd ! i) = 1)"
    if i: "i < n_random_spikes" for i
  proof -
    from assms(1) i have d:
      "0 \<le> rand_x rnd i" "rand_x rnd i < 1" "0 \<le> rand_y rnd i" "rand_y rnd i < 1"
      "0 \<le> rand_p rnd i" "rand_p rnd i < 1"
      by (simp_all add: unit_draws_def list_all_iff)
    have p: "0 \<le> trunc (rand_p rnd i * real_of_int 2) \<and> trunc (rand_p rnd i * real_of_int 2) < 2"
      using d(5,6) by (intro trunc_scaled) simp_all
    then have "trunc (rand_p rnd i * 2) = 0 \<or> trunc (rand_p rnd i * 2) = 1" by auto
    with trunc_scaled [OF d(1,2) assms(3)] trunc_scaled [OF d(3,4) assms(2)]
    show ?thesis by (simp add: test_data_fields [OF i])
  qed
  moreover have "length (test_data h w rnd) = n_random_spikes"
    by (simp add: test_data_def Let_def)
  ultimately show ?thesis by (simp add: list_all_length)
qed

lemma unit_draws0: "unit_draws draws0"
  by (simp add: unit_draws_def draws0_def list_all_iff)

lemma in_buffer_one_bin:
  "in_buffer tbin [1, P, H, W] tspan e
     \<longleftrightarrow> in_range (ev_p e) P \<and> in_range (ev_y e) H \<and> in_range (ev_x e) W"
  by (simp add: in_buffer_def event_cell_def window_of_def)

lemma in_buffer_inside:
  "in_buffer tbin [B, P, H, W] tspan e \<Longrightarrow> inside tbin [B, P, H, W] tspan (B * (P * H * W)) e"
  by (auto simp: in_buffer_def inside_def dest: event_cell_less)

lemma histo_quantized_reset:
  assumes "u8_shape a = [B, P, H, W]" and "length (u8_data a) = B * (P * H * W)"
      and "list_all (in_buffer tbin [B, P, H, W] tspan) evs"
  shows "snd (histo_quantized tbin evs a tspan True) = None
         \<and> u8_shape (fst (histo_quantized tbin evs a tspan True)) = [B, P, H, W]
         \<and> length (u8_data (fst (histo_quantized tbin evs a tspan True))) = B * (P * H * W)
         \<and> (\<forall>i<B * (P * H * W).
               unat (u8_data (fst (histo_quantized tbin evs a tspan True)) ! i)
                 = min 255 (hits tbin [B, P, H, W] tspan evs i))"
proof -
  let ?z = "replicate (length (u8_data a)) (0 :: 8 word)"
  have ins: "list_all (inside tbin [B, P, H, W] tspan (length ?z)) evs"
    using assms(2,3) by (auto simp: list_all_iff dest: in_buffer_inside)
  note acc = accumulate_inside [OF ins]
  have hq: "histo_quantized tbin evs a tspan True
              = (a\<lparr>u8_data := fst (accumulate tbin [B, P, H, W] tspan evs ?z)\<rparr>,
                 snd (accumulate tbin [B, P, H, W] tspan evs ?z))"
    by (simp add: histo_quantized_def Let_def assms(1) split: prod.splits)
  show ?thesis
    unfolding hq using acc assms(1,2) by (simp add: accumulate_length)
qed

subsection \<open>Models with a pipeline that leaves its argument untouched\<close>

text \<open>
  For a pipeline that does not write to the synthetic events and keeps the shape of the
  4 by 4 sensor, the dry run passes, the constructor returns the process, and the model
  built from it is reachable. On the three events of the scenario its tick bins the
  events as the camera delivered them.
\<close>

lemma test_data_in_buffer:
  assumes "unit_draws rnd" "0 < h" "0 < w"
  shows "list_all (in_buffer tbin [1, 2, nat h, nat w] tspan) (test_data h w rnd)"
proof -
  have "in_buffer tbin [1, 2, nat h, nat w] tspan e"
    if "0 \<le> ev_x e \<and> ev_x e < w \<and> 0 \<le> ev_y e \<and> ev_y e < h \<and> (ev_p e = 0 \<or> ev_p e = 1)" for e
    using that by (auto simp: in_buffer_def event_cell_def window_of_def in_range_def)
  with test_data_in_sensor [OF assms] show ?thesis
    by (auto simp: list_all_iff)
qed

lemma dry_run_passes:
  assumes "unit_draws rnd" "0 < h" "0 < w"
      and "call c (test_data h w rnd) = Inr (test_data h w rnd, ret)"
  shows "dry_run tbin rnd c [1, 2, h, w] h w
           = ([ComposeCall (test_data h w rnd),
               HistoQuantized (test_data h w rnd)
                 \<lparr>u8_shape = [1, 2, nat h, nat w],
                  u8_data = replicate (2 * (nat h * nat w)) 0\<rparr>
                 (np_max_t (test_data h w rnd)) True], None)"
proof -
  let ?td = "test_data h w rnd"
  let ?vol = "\<lparr>u8_shape = [1, 2, nat h, nat w],
               u8_data = replicate (2 * (nat h * nat w)) (0 :: 8 word)\<rparr>"
  have z: "np_zeros_u8 [1, 2, h, w] = Inr ?vol"
    using assms(2,3) by (simp add: np_zeros_u8_def)
  have ne: "?td \<noteq> []" using length_test_data [of h w rnd] by auto
  have "snd (histo_quantized tbin ?td ?vol (np_max_t ?td) True) = None"
    using histo_quantized_reset [of ?vol 1 2 "nat h" "nat w" tbin "np_max_t ?td" ?td]
          test_data_in_buffer [OF assms(1,2,3)]
    by (simp add: mult.assoc)
  then show ?thesis
    using z ne by (simp add: dry_run_def Let_def assms(4))
qed

lemma constructed_with_pipeline:
  assumes "call c (test_data 4 4 draws0) = Inr (test_data 4 4 draws0, ret)"
      and "determine_output_shape c \<lparr>ev_height = 4, ev_width = 4, ev_polarities = 2\<rparr>
             = Inr \<lparr>ev_height = 4, ev_width = 4, ev_polarities = 2\<rparr>"
  shows "snd (InivationCamera_init tbin draws0 (4, 4) [] None (Some c) 1 None)
           = Inr (proc_with c)"
proof -
  have d: "declared_shape (4, 4) (Some c) 1 None
             = ([DetermineOutputShape \<lparr>ev_height = 4, ev_width = 4, ev_polarities = 2\<rparr>],
                Inr [1, 2, 4, 4])"
    by (simp add: declared_shape_def assms(2))
  have "snd (dry_run tbin draws0 c [1, 2, 4, 4] 4 4) = None"
    using dry_run_passes [OF unit_draws0 _ _ assms(1), of tbin] by simp
  then obtain eff2 where "dry_run tbin draws0 c [1, 2, 4, 4] 4 4 = (eff2, None)"
    by (cases "dry_run tbin draws0 c [1, 2, 4, 4] 4 4") simp
  then show ?thesis
    by (simp add: InivationCamera_init_def d proc_with_def proc0_def)
qed

lemma state_with_reachable:
  assumes "call c (test_data 4 4 draws0) = Inr (test_data 4 4 draws0, ret)"
      and "determine_output_shape c \<lparr>ev_height = 4, ev_width = 4, ev_polarities = 2\<rparr>
             = Inr \<lparr>ev_height = 4, ev_width = 4, ev_polarities = 2\<rparr>"
  shows "reachable tbin (state_with c)"
proof -
  obtain eff where i: "InivationCamera_init tbin draws0 (4, 4) [] None (Some c) 1 None
                         = (eff, Inr (proc_with c))"
    using constructed_with_pipeline [OF assms, of tbin]
    by (cases "InivationCamera_init tbin draws0 (4, 4) [] None (Some c) 1 None") simp
  have m: "model_init (proc_with c) 0 0 = Inr (state_with c)"
    by (simp add: model_init_def proc_with_def proc0_def state_with_def state0_def
          np_zeros_u8_def)
  from i m show ?thesis by (rule reach_init)
qed

lemma call_drop_first: "call (Compose [drop_first]) es = Inr (es, tl es)"
  by (simp add: Compose_def drop_first_def)

lemma shape_mask_all: "determine_output_shape (Compose [mask_all]) v = Inr v"
  by (simp add: Compose_def mask_all_def)

lemma shape_drop_first: "determine_output_shape (Compose [drop_first]) v = Inr v"
  by (simp add: Compose_def drop_first_def)

lemma pipeline_tick:
  assumes "call c (map to_event batch3) = Inr (map to_event batch3, ret)"
  shows "run_spk tbin (state_with c) 20 (Some batch3)
     = \<lparr>post = state_with c\<lparr>self_volume :=
                 \<lparr>u8_shape = [1, 2, 4, 4],
                  u8_data = [2, 0, 0, 0, 0, 0, 0, 0, 0, 0, 0, 0, 0, 0, 0, 0,
                             0, 0, 0, 0, 0, 1, 0, 0, 0, 0, 0, 0, 0, 0, 0, 0]\<rparr>,
               self_t_last_iteration := 20\<rparr>,
        effects = [GetNextEventBatch,
                   ComposeCall (map to_event batch3),
                   HistoQuantized (map to_event batch3) (self_volume state0) 10 True,
                   Send (UInt8 \<lparr>u8_shape = [1, 2, 4, 4],
                     u8_data = [2, 0, 0, 0, 0, 0, 0, 0, 0, 0, 0, 0, 0, 0, 0, 0,
                                0, 0, 0, 0, 0, 1, 0, 0, 0, 0, 0, 0, 0, 0, 0, 0]\<rparr>)],
        raised = None\<rparr>"
proof -
  have p: "\<not> self_t_pause (state_with c) > self_t_last_iteration (state_with c)"
    by (simp add: state_with_def state0_def)
  have ne: "map to_event batch3 \<noteq> []" by (simp add: batch3_def)
  have tr: "transform_events (self_transformations (state_with c)) (load_events (Some batch3))
              = ([ComposeCall (map to_event batch3)], Inr (map to_event batch3))"
    using ne by (simp add: transform_events_def state_with_def load_events_def assms)
  have v: "self_volume (state_with c) = self_volume state0"
    by (simp add: state_with_def)
  have hq: "histo_quantized tbin (map to_event batch3) (self_volume (state_with c))
              (ev_t (last (map to_event batch3)) - ev_t (hd (map to_event batch3))) True
            = (\<lparr>u8_shape = [1, 2, 4, 4],
                u8_data = [2, 0, 0, 0, 0, 0, 0, 0, 0, 0, 0, 0, 0, 0, 0, 0,
                           0, 0, 0, 0, 0, 1, 0, 0, 0, 0, 0, 0, 0, 0, 0, 0]\<rparr>, None)"
    by (simp only: batch3_events(2) scenario_frame v)
  show ?thesis
    unfolding run_spk_nonempty [OF p tr ne hq] by (simp add: batch3_events(2) v)
qed


subsection \<open>The batch a pipeline returns\<close>

text \<open>
  C1. The claim fails where the batch is empty after the transformation because the
  pipeline returned an empty batch. Lines 199 and 202 call the pipeline as a statement
  and then test the array that was passed, so a pipeline that filters every event out by
  returning a new, empty array (\<open>mask_all\<close>) changes nothing: in the reachable model
  with that pipeline, on the three events of the scenario, the pipeline's result is the
  empty batch, yet the tick calls the binner on all three events and sends a frame that
  is not all zero. For a missing batch, an empty batch, or an array emptied in place the
  claim holds (lemma \<open>empty_array_zero_frame\<close>).
\<close>

theorem returned_empty_batch_is_binned:
  "reachable tbin0 (state_with (Compose [mask_all]))
   \<and> call (Compose [mask_all]) (load_events (Some batch3)) = Inr (load_events (Some batch3), [])
   \<and> raised (run_spk tbin0 (state_with (Compose [mask_all])) 20 (Some batch3)) = None
   \<and> filter is_histo (effects (run_spk tbin0 (state_with (Compose [mask_all])) 20 (Some batch3)))
       = [HistoQuantized (map to_event batch3) (self_volume state0) 10 True]
   \<and> sent (effects (run_spk tbin0 (state_with (Compose [mask_all])) 20 (Some batch3)))
       = [UInt8 \<lparr>u8_shape = [1, 2, 4, 4],
                 u8_data = [2, 0, 0, 0, 0, 0, 0, 0, 0, 0, 0, 0, 0, 0, 0, 0,
                            0, 0, 0, 0, 0, 1, 0, 0, 0, 0, 0, 0, 0, 0, 0, 0]\<rparr>]
   \<and> \<not> nd_all_zero (hd (sent (effects
         (run_spk tbin0 (state_with (Compose [mask_all])) 20 (Some batch3)))))"
proof -
  have r: "reachable tbin0 (state_with (Compose [mask_all]))"
    using call_mask_all shape_mask_all by (rule state_with_reachable)
  show ?thesis
    using r by (simp add: pipeline_tick [OF call_mask_all] call_mask_all)
qed


text \<open>
  C7. The claim fails in what is binned after the pipeline ran. With a pipeline that
  returns all but the first event as a new array (\<open>drop_first\<close>), the transformed batch
  of the scenario has two events and spans 5 microseconds, but the tick of the reachable
  model with that pipeline passes the three events of the camera and the span 10 to the
  binner, and sends the frame that counts all three.
\<close>

theorem span_of_untransformed_batch:
  "reachable tbin0 (state_with (Compose [drop_first]))
   \<and> call (Compose [drop_first]) (load_events (Some batch3))
       = Inr (load_events (Some batch3), tl (load_events (Some batch3)))
   \<and> length (tl (load_events (Some batch3))) = 2
   \<and> ev_t (last (tl (load_events (Some batch3)))) - ev_t (hd (tl (load_events (Some batch3)))) = 5
   \<and> effects (run_spk tbin0 (state_with (Compose [drop_first])) 20 (Some batch3))
       = [GetNextEventBatch,
          ComposeCall (load_events (Some batch3)),
          HistoQuantized (load_events (Some batch3)) (self_volume state0) 10 True,
          Send (UInt8 \<lparr>u8_shape = [1, 2, 4, 4],
                 u8_data = [2, 0, 0, 0, 0, 0, 0, 0, 0, 0, 0, 0, 0, 0, 0, 0,
                            0, 0, 0, 0, 0, 1, 0, 0, 0, 0, 0, 0, 0, 0, 0, 0]\<rparr>)]
   \<and> length (load_events (Some batch3)) = 3"
proof -
  have r: "reachable tbin0 (state_with (Compose [drop_first]))"
    using call_drop_first shape_drop_first by (rule state_with_reachable)
  have l: "load_events (Some batch3) = map to_event batch3" by (simp add: load_events_def)
  have t: "length (tl (map to_event batch3)) = 2"
    "ev_t (last (tl (map to_event batch3))) - ev_t (hd (tl (map to_event batch3))) = 5"
    "length (map to_event batch3) = 3"
    by (simp_all add: batch3_def to_event_def)
  show ?thesis
    using r t by (simp add: l pipeline_tick [OF call_drop_first] call_drop_first)
qed

subsection \<open>The constructor: the number of time bins\<close>

text \<open>
  A negative number of time bins, or more than one, is refused before anything else is
  looked at; with one time bin and no pipeline the constructor returns the process,
  unless biases come with a file.
\<close>

lemma num_output_time_bins_rejected:
  assumes "n < 0 \<or> 1 < n"
  shows "InivationCamera_init tbin rnd sensor_shape dev bias trf n out_shape
           = ([], Inl (ValueError ''Not Implemented: num_output_time_bins must be 1.''))"
  using assms by (simp add: InivationCamera_init_def)

lemma one_time_bin_accepted:
  assumes "bias = None \<or> dev = []"
  shows "InivationCamera_init tbin rnd (h, w) dev bias None 1 None
           = ([], Inr \<lparr>proc_shape = [1, 2, h, w], proc_biases = bias, proc_device = dev,
                       proc_transformations = None, proc_num_output_time_bins = 1,
                       proc_s_out_shape = [1, 2, h, w]\<rparr>)"
  using assms by (auto simp: InivationCamera_init_def declared_shape_def)



subsection \<open>The constructor: biases and device\<close>





subsection \<open>The constructor: the declared output shape\<close>













subsection \<open>Counts in the frame\<close>








subsection \<open>The constructor: the dry run\<close>












end
